theory Spec2Isabelle
  imports Complex_Main
begin

section \<open>Strings, values and the external capabilities\<close>

text \<open>
  A Python \<open>str\<close> is a sequence of Unicode code points, and \<open>len\<close> counts code points.
  The lexicon of the repository is Chinese, so a string is modelled as the list of its
  code points (natural numbers), not as a list of bytes.
\<close>

type_synonym ustr = "nat list"

text \<open>
  The values a comment cell or an argument can hold: a \<open>str\<close>, a missing value
  (\<open>None\<close> or \<open>NaN\<close>), or a number. Floating point numbers are modelled by exact
  reals: the sums formed by the scorer are finite sums of lexicon weights, and the
  properties below do not depend on rounding.
\<close>

datatype pyval = PStr ustr | PNone | PNum real

datatype error = KeyError ustr | NameError string | ReError ustr

text \<open>
  The capabilities the analysers take from their libraries, as parameters:
  \<^item> \<open>jieba_cut\<close>: the segmentation \<open>jieba.cut\<close>, from a text to its tokens in order;
  \<^item> \<open>isdigit_char\<close>: the characters that \<open>str.isdigit\<close> accepts;
  \<^item> \<open>word_char\<close>: the characters that the regular expression class \<open>\w\<close> accepts;
  \<^item> \<open>re_compile\<close>: \<open>re.compile\<close> followed by \<open>search\<close>: \<open>None\<close> when the pattern
    does not compile (\<open>re.error\<close>), otherwise the test "the pattern matches somewhere
    in the string".
\<close>

record runtime =
  jieba_cut :: "ustr \<Rightarrow> ustr list"
  isdigit_char :: "nat \<Rightarrow> bool"
  word_char :: "nat \<Rightarrow> bool"
  re_compile :: "ustr \<Rightarrow> (ustr \<Rightarrow> bool) option"

section \<open>The sentiment analyser (sentiment_analysis.py)\<close>

record lexicon =
  positive_words :: "ustr set"
  negative_words :: "ustr set"
  intensity_words :: "ustr \<rightharpoonup> real"
  negation_words :: "ustr set"

text \<open>The dictionaries built by \<open>SentimentAnalyzer.__init__\<close>, code point by code point.\<close>

definition default_positive_words :: "ustr set" where
  "default_positive_words =
    {[22909], [26834], [36190], [20248, 31168],
     [28418, 20142], [32654], [21487, 29233], [21916, 27426],
     [29233], [26834, 26834], [21385, 23475], [24378, 22823],
     [31934, 24425], [23436, 32654], [36229, 36190], [22826, 26834, 20102],
     [25903, 25345], [21152, 27833], [26834, 26834, 21714], [32654, 32654, 21714],
     [21916, 27426, 21916, 27426], [36190, 36190, 36190]}"

definition default_negative_words :: "ustr set" where
  "default_negative_words =
    {[24046], [28866], [22403, 22334], [24046, 21170],
     [24694, 24515], [35752, 21388], [26080, 32842], [38590, 30475],
     [22833, 26395], [26080, 35821], [19981, 34892], [19981, 22909],
     [31967, 31957], [24046, 35780], [24046, 24046, 24046], [24694, 35780],
     [24046, 21170], [22826, 24046, 20102], [19981, 22909, 30475], [27809, 24847, 24605],
     [19981, 21916, 27426]}"

definition default_intensity_table :: "(ustr \<times> real) list" where
  "default_intensity_table =
    [([38750, 24120], 1.5),
     ([26497, 20854], 1.5),
     ([21313, 20998], 1.5),
     ([36229, 32423], 1.5),
     ([29305, 21035], 1.5),
     ([24456], 1.3),
     ([25402], 1.2),
     ([27604, 36739], 1.1),
     ([26377, 28857], 0.8),
     ([31245, 24494], 0.8),
     ([30053, 24494], 0.8)]"

definition default_negation_words :: "ustr set" where
  "default_negation_words =
    {[19981], [27809], [26080], [38750], [33707], [21247], [26410]}"

definition default_lexicon :: lexicon where
  "default_lexicon =
    \<lparr>positive_words = default_positive_words,
     negative_words = default_negative_words,
     intensity_words = map_of default_intensity_table,
     negation_words = default_negation_words\<rparr>"

text \<open>
  \<open>intensity_words.get(word, 1.0)\<close>, and the \<open>word_score\<close> of the \<open>if\<close>/\<open>elif\<close>/\<open>else\<close>
  chain on the two sentiment sets, where \<open>None\<close> is the \<open>continue\<close> of the \<open>else\<close> branch.
\<close>

definition get_intensity :: "lexicon \<Rightarrow> ustr \<Rightarrow> real" where
  "get_intensity lx word = (case intensity_words lx word of None \<Rightarrow> 1 | Some v \<Rightarrow> v)"

definition word_score :: "lexicon \<Rightarrow> ustr \<Rightarrow> real option" where
  "word_score lx word =
     (if word \<in> positive_words lx then Some 1
      else if word \<in> negative_words lx then Some (- 1)
      else None)"

text \<open>
  One pass of the body of the \<open>for\<close> loop of \<open>analyze_sentence\<close>, on the pair
  (\<open>score\<close>, \<open>negation\<close>). The first branch is the \<open>continue\<close> of a negation word.
\<close>

fun sentence_step :: "lexicon \<Rightarrow> real \<times> bool \<Rightarrow> ustr \<Rightarrow> real \<times> bool" where
  "sentence_step lx (score, negation) word =
     (if word \<in> negation_words lx then (score, True)
      else
        let intensity = get_intensity lx word in
        case word_score lx word of
          None \<Rightarrow> (score, negation)
        | Some ws \<Rightarrow>
            if negation then (score + (- ws) * intensity, False)
            else (score + ws * intensity, negation))"

definition sentence_loop :: "lexicon \<Rightarrow> ustr list \<Rightarrow> real \<times> bool \<Rightarrow> real \<times> bool" where
  "sentence_loop lx words st = foldl (sentence_step lx) st words"

text \<open>The normalisation that ends \<open>analyze_sentence\<close>, on an already segmented text.\<close>

definition normalize_score :: "ustr list \<Rightarrow> real \<Rightarrow> real" where
  "normalize_score words score =
     (if length words > 0 then max (- 1) (min 1 (score / real (length words))) else score)"

definition analyze_words :: "lexicon \<Rightarrow> ustr list \<Rightarrow> real" where
  "analyze_words lx words = normalize_score words (fst (sentence_loop lx words (0, False)))"

definition analyze_sentence :: "runtime \<Rightarrow> lexicon \<Rightarrow> pyval \<Rightarrow> real" where
  "analyze_sentence rt lx text =
     (case text of
        PStr s \<Rightarrow> analyze_words lx (jieba_cut rt s)
      | _ \<Rightarrow> 0)"

text \<open>The three labels returned by \<open>classify_sentiment\<close>: positive, negative, neutral.\<close>

definition label_positive :: ustr where "label_positive = [31215, 26497]"
definition label_negative :: ustr where "label_negative = [28040, 26497]"
definition label_neutral :: ustr where "label_neutral = [20013, 24615]"

definition classify_sentiment :: "real \<Rightarrow> ustr" where
  "classify_sentiment score =
     (if score > 0.1 then label_positive
      else if score < - 0.1 then label_negative
      else label_neutral)"

subsection \<open>Scoring a whole table: analyze_comments\<close>

text \<open>
  A pandas \<open>DataFrame\<close> is modelled by its columns in order, each a name with the list
  of its cells. \<open>df[name]\<close> raises \<open>KeyError\<close> for a column that does not exist, and
  the assignment \<open>df[name] = values\<close> replaces the column of that name where it stands,
  or appends a new column after the existing ones.
\<close>

type_synonym 'c dataframe = "(ustr \<times> 'c list) list"

definition get_column :: "'c dataframe \<Rightarrow> ustr \<Rightarrow> error + 'c list" where
  "get_column df name = (case map_of df name of None \<Rightarrow> Inl (KeyError name) | Some col \<Rightarrow> Inr col)"

fun set_column :: "'c dataframe \<Rightarrow> ustr \<Rightarrow> 'c list \<Rightarrow> 'c dataframe" where
  "set_column [] name vals = [(name, vals)]"
| "set_column ((k, col) # df) name vals =
     (if k = name then (name, vals) # df else (k, col) # set_column df name vals)"

text \<open>
  The caller and \<open>analyze_comments\<close> share the table: the argument \<open>df\<close> is a reference.
  The store maps references to tables, and a function that assigns to a column of its
  argument returns the updated store.
\<close>

type_synonym ref = nat
type_synonym store = "ref \<Rightarrow> pyval dataframe"

text \<open>The column names written by the analyser (sentiment score, sentiment label).\<close>

definition score_column :: ustr where "score_column = [24773, 24863, 20998, 25968]"
definition label_column :: ustr where "label_column = [24773, 24863, 20998, 31867]"

text \<open>\<open>Series.value_counts()\<close>: the number of cells of each label that occurs.\<close>

definition value_counts :: "ustr list \<Rightarrow> (ustr \<rightharpoonup> nat)" where
  "value_counts labels =
     (\<lambda>l. if l \<in> set labels then Some (length (filter (\<lambda>x. x = l) labels)) else None)"

text \<open>
  \<open>SentimentAnalyzer.analyze_comments(df, text_column)\<close>. The two assignments write
  into the table that \<open>df\<close> refers to, and the returned table is \<open>df\<close> itself. The
  second assignment reads back the scores just stored. Printing is not modelled.
\<close>

definition SentimentAnalyzer_analyze_comments ::
  "runtime \<Rightarrow> lexicon \<Rightarrow> store \<Rightarrow> ref \<Rightarrow> ustr \<Rightarrow> error + (store \<times> ref \<times> (ustr \<rightharpoonup> nat))" where
  "SentimentAnalyzer_analyze_comments rt lx h df text_column =
     (case get_column (h df) text_column of
        Inl e \<Rightarrow> Inl e
      | Inr col \<Rightarrow>
          let scores = map (analyze_sentence rt lx) col;
              h1 = h(df := set_column (h df) score_column (map PNum scores));
              labels = map classify_sentiment scores;
              h2 = h1(df := set_column (h1 df) label_column (map PStr labels));
              sentiment_counts = value_counts labels
          in Inr (h2, df, sentiment_counts))"

section \<open>The text miner (text_mining.py)\<close>

subsection \<open>Construction and the stopword list\<close>

record text_miner =
  stopwords :: "ustr set"

definition base_stopwords :: "ustr set" where
  "base_stopwords =
    {[30340], [20102], [22312], [26159], [25105],
     [26377], [21644], [23601], [19981], [20154],
     [37117], [19968], [19968, 20010], [19978], [20063],
     [24456], [21040], [35828], [35201], [21435],
     [20320], [20250], [30528], [27809, 26377], [30475],
     [22909], [33258, 24049], [36825], [36825, 20010], [20063]}"

text \<open>
  The characters \<open>str.strip()\<close> removes and the regular expression class \<open>\s\<close> accepts:
  those for which \<open>str.isspace\<close> holds.
\<close>

definition py_isspace :: "nat \<Rightarrow> bool" where
  "py_isspace c =
     ((9 \<le> c \<and> c \<le> 13) \<or> (28 \<le> c \<and> c \<le> 32) \<or> c = 133 \<or> c = 160 \<or> c = 5760
      \<or> (8192 \<le> c \<and> c \<le> 8202) \<or> c = 8232 \<or> c = 8233 \<or> c = 8239 \<or> c = 8287
      \<or> c = 12288)"

definition strip :: "ustr \<Rightarrow> ustr" where
  "strip s = rev (dropWhile py_isspace (rev (dropWhile py_isspace s)))"

text \<open>
  The names that the \<open>import\<close> statements at the head of text_mining.py bind in the
  module: \<open>pd\<close>, \<open>jieba\<close> (twice), \<open>Counter\<close> and \<open>re\<close>. A global name that is read and
  is not among them (nor a builtin) raises \<open>NameError\<close>.
\<close>

definition text_mining_globals :: "string list" where
  "text_mining_globals = [''pd'', ''jieba'', ''jieba'', ''Counter'', ''re'']"

text \<open>
  What a path holds when \<open>load_stopwords\<close> looks at it: nothing, a file that reads
  line by line to its end, or a file whose reading raises after some lines.
\<close>

datatype file_state = NoFile | FileLines "ustr list" | Unreadable "ustr list"

definition add_lines :: "ustr set \<Rightarrow> ustr list \<Rightarrow> ustr set" where
  "add_lines sw ls = sw \<union> {w \<in> set (map strip ls). w \<noteq> []}"

text \<open>
  \<open>load_stopwords(filepath)\<close>, with the set of stopwords and whether the warning of the
  \<open>except\<close> branch was printed. The test \<open>filepath and os.path.exists(filepath)\<close> reads
  the global \<open>os\<close> only when \<open>filepath\<close> is neither \<open>None\<close> nor empty.
\<close>

definition load_stopwords :: "(ustr \<Rightarrow> file_state) \<Rightarrow> ustr option \<Rightarrow> error + (ustr set \<times> bool)" where
  "load_stopwords fs filepath =
     (case filepath of
        None \<Rightarrow> Inr (base_stopwords, False)
      | Some path \<Rightarrow>
          if path = [] then Inr (base_stopwords, False)
          else if ''os'' \<notin> set text_mining_globals then Inl (NameError ''os'')
          else (case fs path of
                  NoFile \<Rightarrow> Inr (base_stopwords, False)
                | FileLines ls \<Rightarrow> Inr (add_lines base_stopwords ls, False)
                | Unreadable ls \<Rightarrow> Inr (add_lines base_stopwords ls, True)))"

text \<open>\<open>TextMiner.__init__(stopwords_file)\<close>; \<open>jieba.initialize()\<close> is taken to succeed.\<close>

definition TextMiner_init :: "(ustr \<Rightarrow> file_state) \<Rightarrow> ustr option \<Rightarrow> error + (text_miner \<times> bool)" where
  "TextMiner_init fs stopwords_file =
     (case load_stopwords fs stopwords_file of
        Inl e \<Rightarrow> Inl e
      | Inr (sw, warned) \<Rightarrow> Inr (\<lparr>stopwords = sw\<rparr>, warned))"

subsection \<open>Cleaning and counting\<close>

text \<open>
  \<open>clean_text\<close>: the first substitution keeps the characters of \<open>\w\<close>, of the range
  U+4E00 to U+9FFF and of \<open>\s\<close>; the second replaces every maximal run of whitespace by
  one space; then the text is stripped.
\<close>

function collapse_spaces :: "ustr \<Rightarrow> ustr" where
  "collapse_spaces [] = []"
| "collapse_spaces (c # cs) =
     (if py_isspace c then 32 # collapse_spaces (dropWhile py_isspace cs)
      else c # collapse_spaces cs)"
  by pat_completeness auto
termination
  by (relation "measure length") (auto simp add: le_imp_less_Suc length_dropWhile_le)

definition clean_text :: "runtime \<Rightarrow> pyval \<Rightarrow> ustr" where
  "clean_text rt text =
     (case text of
        PStr s \<Rightarrow>
          strip (collapse_spaces
            (filter (\<lambda>c. word_char rt c \<or> (19968 \<le> c \<and> c \<le> 40959) \<or> py_isspace c) s))
      | _ \<Rightarrow> [])"

text \<open>\<open>str.isdigit\<close>: true for a non-empty string of digit characters only.\<close>

definition isdigit :: "runtime \<Rightarrow> ustr \<Rightarrow> bool" where
  "isdigit rt w = (w \<noteq> [] \<and> list_all (isdigit_char rt) w)"

text \<open>
  The text column as the miner reads it: a cell is a string or a missing value
  (\<open>None\<close>, \<open>NaN\<close>), which \<open>dropna\<close> removes. \<open>' '.join\<close> puts one space between the
  texts.
\<close>

definition dropna :: "ustr option list \<Rightarrow> ustr list" where
  "dropna col = concat (map (\<lambda>cell. case cell of None \<Rightarrow> [] | Some s \<Rightarrow> [s]) col)"

fun join_space :: "ustr list \<Rightarrow> ustr" where
  "join_space [] = []"
| "join_space [s] = s"
| "join_space (s # t # ts) = s @ [32] @ join_space (t # ts)"

text \<open>The inner loop of \<open>analyze_comments\<close>: the words of one comment that are kept.\<close>

definition kept_words :: "runtime \<Rightarrow> text_miner \<Rightarrow> ustr \<Rightarrow> ustr list" where
  "kept_words rt tm text =
     filter (\<lambda>word. length word \<ge> 2 \<and> word \<notin> stopwords tm \<and> \<not> isdigit rt word)
       (map strip (jieba_cut rt text))"

text \<open>
  \<open>Counter(words)\<close> as the dictionary it is: the distinct words in the order of their
  first occurrence, each with its count. \<open>most_common(n)\<close> sorts by decreasing count,
  words of equal count staying in that order, and keeps the first \<open>n\<close> (none when
  \<open>n\<close> is zero or negative).
\<close>

fun counter_add :: "(ustr \<times> nat) list \<Rightarrow> ustr \<Rightarrow> (ustr \<times> nat) list" where
  "counter_add [] w = [(w, 1)]"
| "counter_add ((k, c) # kcs) w =
     (if k = w then (k, c + 1) # kcs else (k, c) # counter_add kcs w)"

definition Counter :: "ustr list \<Rightarrow> (ustr \<times> nat) list" where
  "Counter ws = foldl counter_add [] ws"

definition most_common :: "(ustr \<times> nat) list \<Rightarrow> int \<Rightarrow> (ustr \<times> nat) list" where
  "most_common wc n = take (nat n) (sort_key (\<lambda>(w, c). - int c) wc)"

record mining_result =
  top_words :: "(ustr \<times> nat) list"
  total_words :: nat
  unique_words :: nat
  all_word_counts :: "(ustr \<times> nat) list"

text \<open>
  \<open>TextMiner.analyze_comments(df, text_column, top_n)\<close>. \<open>None\<close> is the empty
  dictionary returned when the cleaned text of all comments is empty.
\<close>

definition TextMiner_analyze_comments ::
  "runtime \<Rightarrow> text_miner \<Rightarrow> ustr option dataframe \<Rightarrow> ustr \<Rightarrow> int \<Rightarrow> error + mining_result option" where
  "TextMiner_analyze_comments rt tm df text_column top_n =
     (case get_column df text_column of
        Inl e \<Rightarrow> Inl e
      | Inr col \<Rightarrow>
          let all_text = join_space (dropna col);
              cleaned_text = clean_text rt (PStr all_text)
          in if cleaned_text = [] then Inr None
             else
               let words = concat (map (kept_words rt tm) (dropna col));
                   word_counts = Counter words;
                   top_ws = most_common word_counts top_n
               in Inr (Some \<lparr>top_words = top_ws,
                             total_words = length words,
                             unique_words = length word_counts,
                             all_word_counts = word_counts\<rparr>))"

subsection \<open>Hot topics\<close>

text \<open>
  \<open>Series.str.contains(word, na=False)\<close>: pandas compiles \<open>word\<close> as a regular
  expression (its \<open>regex\<close> parameter defaults to true) and searches every string cell
  with it; a missing cell gives the value of \<open>na\<close>.
\<close>

definition str_contains :: "runtime \<Rightarrow> ustr option list \<Rightarrow> ustr \<Rightarrow> error + bool list" where
  "str_contains rt col pat =
     (case re_compile rt pat of
        None \<Rightarrow> Inl (ReError pat)
      | Some search \<Rightarrow>
          Inr (map (\<lambda>cell. case cell of None \<Rightarrow> False | Some s \<Rightarrow> search s) col))"

record hot_topic =
  keyword :: ustr
  occurrence_count :: nat
  related_comment_count :: nat
  sample_comments :: "ustr option list"

text \<open>The rows of a column that a boolean selector keeps, in their order.\<close>

definition select_rows :: "'c list \<Rightarrow> bool list \<Rightarrow> 'c list" where
  "select_rows col sel = map fst (filter snd (zip col sel))"

text \<open>The \<open>for\<close> loop of \<open>find_hot_topics\<close> over the most frequent words.\<close>

fun hot_topics_loop ::
  "runtime \<Rightarrow> ustr option list \<Rightarrow> int \<Rightarrow> (ustr \<times> nat) list \<Rightarrow> error + hot_topic list" where
  "hot_topics_loop rt col min_count [] = Inr []"
| "hot_topics_loop rt col min_count ((word, count) # rest) =
     (if int count \<ge> min_count then
        (case str_contains rt col word of
           Inl e \<Rightarrow> Inl e
         | Inr sel \<Rightarrow>
             let related_comments = select_rows col sel;
                 topic = \<lparr>keyword = word,
                          occurrence_count = count,
                          related_comment_count = length related_comments,
                          sample_comments = take 3 related_comments\<rparr>
             in (case hot_topics_loop rt col min_count rest of
                   Inl e \<Rightarrow> Inl e
                 | Inr topics \<Rightarrow> Inr (topic # topics)))
      else hot_topics_loop rt col min_count rest)"

definition find_hot_topics ::
  "runtime \<Rightarrow> text_miner \<Rightarrow> ustr option dataframe \<Rightarrow> ustr \<Rightarrow> int \<Rightarrow> error + hot_topic list" where
  "find_hot_topics rt tm df text_column min_count =
     (case TextMiner_analyze_comments rt tm df text_column 50 of
        Inl e \<Rightarrow> Inl e
      | Inr None \<Rightarrow> Inr []
      | Inr (Some word_counts) \<Rightarrow>
          (case get_column df text_column of
             Inl e \<Rightarrow> Inl e
           | Inr col \<Rightarrow> hot_topics_loop rt col min_count (top_words word_counts)))"

section \<open>A concrete runtime and concrete inputs\<close>

text \<open>
  The examples below need values for the library capabilities. \<open>space_cut\<close> segments a
  text at its spaces, every space being a token of its own, as \<open>jieba.cut\<close> does on the
  example texts. \<open>dot_search\<close> is the search of a regular expression that consists of
  ordinary characters and of dots only: a dot matches any character but a line feed,
  every other character of the pattern matches itself.
\<close>

definition ascii :: "string \<Rightarrow> ustr" where
  "ascii s = map of_char s"

fun space_cut_from :: "ustr \<Rightarrow> ustr \<Rightarrow> ustr list" where
  "space_cut_from acc [] = (if acc = [] then [] else [acc])"
| "space_cut_from acc (c # cs) =
     (if c = 32 then (if acc = [] then [] else [acc]) @ [[32]] @ space_cut_from [] cs
      else space_cut_from (acc @ [c]) cs)"

definition space_cut :: "ustr \<Rightarrow> ustr list" where
  "space_cut s = space_cut_from [] s"

fun dot_match_here :: "ustr \<Rightarrow> ustr \<Rightarrow> bool" where
  "dot_match_here [] s = True"
| "dot_match_here (p # ps) [] = False"
| "dot_match_here (p # ps) (c # cs) =
     ((if p = 46 then c \<noteq> 10 else c = p) \<and> dot_match_here ps cs)"

fun dot_search :: "ustr \<Rightarrow> ustr \<Rightarrow> bool" where
  "dot_search pat [] = dot_match_here pat []"
| "dot_search pat (c # cs) = (dot_match_here pat (c # cs) \<or> dot_search pat cs)"

definition sample_runtime :: runtime where
  "sample_runtime =
     \<lparr>jieba_cut = space_cut,
      isdigit_char = (\<lambda>c. 48 \<le> c \<and> c \<le> 57),
      word_char = (\<lambda>c. (48 \<le> c \<and> c \<le> 57) \<or> (65 \<le> c \<and> c \<le> 90) \<or> c = 95
                        \<or> (97 \<le> c \<and> c \<le> 122)),
      re_compile = (\<lambda>pat. Some (dot_search pat))\<rparr>"

text \<open>
  The plain substring test, for comparison with \<open>str_contains\<close>: \<open>pat\<close> occurs in \<open>s\<close>
  at some position, character for character.
\<close>

fun is_substring :: "ustr \<Rightarrow> ustr \<Rightarrow> bool" where
  "is_substring pat [] = (pat = [])"
| "is_substring pat (c # cs) = (take (length pat) (c # cs) = pat \<or> is_substring pat cs)"

text \<open>
  Tokens of the lexicon used in the examples: two negation words, a word that is in no
  dictionary, a positive word, a negative word, and a two-character word in no
  dictionary.
\<close>

definition tok_bu :: ustr where "tok_bu = [19981]"
definition tok_mei :: ustr where "tok_mei = [27809]"
definition tok_tai :: ustr where "tok_tai = [22826]"
definition tok_hao :: ustr where "tok_hao = [22909]"
definition tok_cha :: ustr where "tok_cha = [24046]"
definition tok_shipin :: ustr where "tok_shipin = [35270, 39057]"

text \<open>An intensity table with every weight replaced by 1.0, on the same keys.\<close>

definition unit_weights :: "(ustr \<rightharpoonup> real) \<Rightarrow> (ustr \<rightharpoonup> real)" where
  "unit_weights m = (\<lambda>w. case m w of None \<Rightarrow> None | Some v \<Rightarrow> Some 1)"

text \<open>The name of the text column of the comment tables.\<close>

definition content_column :: ustr where "content_column = [20869, 23481]"

text \<open>
  What the caller sees after a call of \<open>SentimentAnalyzer.analyze_comments\<close>: the table
  behind a reference of its own, and the reference the call returned.
\<close>

definition caller_table :: "error + (store \<times> ref \<times> (ustr \<rightharpoonup> nat)) \<Rightarrow> ref \<Rightarrow> pyval dataframe option" where
  "caller_table res r = (case res of Inl e \<Rightarrow> None | Inr (h', df', counts) \<Rightarrow> Some (h' r))"

definition returned_ref :: "error + (store \<times> ref \<times> (ustr \<rightharpoonup> nat)) \<Rightarrow> ref option" where
  "returned_ref res = (case res of Inl e \<Rightarrow> None | Inr (h', df', counts) \<Rightarrow> Some df')"

text \<open>Two stores: every table has one comment, or two comments and a user column.\<close>

definition one_comment_store :: store where
  "one_comment_store = (\<lambda>r. [(content_column, [PStr tok_hao])])"

definition two_comment_store :: store where
  "two_comment_store = (\<lambda>r. [(ascii ''user'', [PStr (ascii ''a''), PStr (ascii ''b'')]),
                               (content_column, [PStr tok_cha, PNone])])"

text \<open>
  A miner with the built-in stopwords, as \<open>TextMiner()\<close> builds it, and a table of three
  comments: "pi 3.14", "3.14 ok" and "id 3514".
\<close>

definition default_miner :: text_miner where
  "default_miner = \<lparr>stopwords = base_stopwords\<rparr>"

definition pi_comments :: "ustr option dataframe" where
  "pi_comments =
     [(content_column, [Some (ascii ''pi 3.14''), Some (ascii ''3.14 ok''), Some (ascii ''id 3514'')])]"

section \<open>Properties of the sentiment analyser\<close>

lemma normalize_score_nonempty_bounds:
  "ws \<noteq> [] \<Longrightarrow> - 1 \<le> normalize_score ws s \<and> normalize_score ws s \<le> 1"
  by (simp add: normalize_score_def)

text \<open>
  C1. Whatever the argument of \<open>analyze_sentence\<close> is (a string, among them the empty
  one and those the tokenizer segments into no token, or a value that is not a string),
  whatever the tokenizer and the lexicon are, the returned score lies in the closed
  interval from -1 to 1.
\<close>

theorem analyze_sentence_in_range:
  "- 1 \<le> analyze_sentence rt lx x \<and> analyze_sentence rt lx x \<le> 1"
proof (cases x)
  case (PStr s)
  show ?thesis
  proof (cases "jieba_cut rt s = []")
    case True
    with PStr show ?thesis
      by (simp add: analyze_sentence_def analyze_words_def normalize_score_def sentence_loop_def)
  next
    case False
    with PStr show ?thesis
      using normalize_score_nonempty_bounds [OF False]
      by (simp add: analyze_sentence_def analyze_words_def)
  qed
qed (simp_all add: analyze_sentence_def)

text \<open>
  C4. \<open>classify_sentiment\<close> answers positive exactly for the scores above 0.1,
  negative exactly for those below -0.1 and neutral for all others; 0.1 and -0.1
  themselves are neutral, 0.10001 is positive and -0.10001 is negative.
\<close>

theorem classify_sentiment_thresholds:
  "(classify_sentiment s = label_positive) = (s > 0.1)
   \<and> (classify_sentiment s = label_negative) = (s < - 0.1)
   \<and> (classify_sentiment s = label_neutral) = (- 0.1 \<le> s \<and> s \<le> 0.1)
   \<and> classify_sentiment 0.1 = label_neutral
   \<and> classify_sentiment (- 0.1) = label_neutral
   \<and> classify_sentiment 0.10001 = label_positive
   \<and> classify_sentiment (- 0.10001) = label_negative"
  by (auto simp add: classify_sentiment_def label_positive_def label_negative_def
      label_neutral_def)

subsection \<open>The loop over the tokens\<close>

lemmas lexicon_simps = default_lexicon_def default_positive_words_def default_negative_words_def
  default_negation_words_def default_intensity_table_def word_score_def get_intensity_def

lemmas token_simps = tok_bu_def tok_mei_def tok_tai_def tok_hao_def tok_cha_def tok_shipin_def

lemma sentence_loop_Nil: "sentence_loop lx [] st = st"
  by (simp add: sentence_loop_def)

lemma sentence_loop_Cons:
  "sentence_loop lx (w # ws) st = sentence_loop lx ws (sentence_step lx st w)"
  by (simp add: sentence_loop_def)

lemma sentence_loop_append:
  "sentence_loop lx (xs @ ys) st = sentence_loop lx ys (sentence_loop lx xs st)"
  by (simp add: sentence_loop_def)

lemma sentence_loop_markers:
  "ms \<noteq> [] \<Longrightarrow> set ms \<subseteq> negation_words lx \<Longrightarrow> sentence_loop lx ms (s, n) = (s, True)"
proof (induction ms arbitrary: n)
  case Nil
  then show ?case by simp
next
  case (Cons m ms)
  show ?case
  proof (cases "ms = []")
    case True
    with Cons.prems show ?thesis by (simp add: sentence_loop_Cons sentence_loop_Nil)
  next
    case False
    with Cons show ?thesis by (simp add: sentence_loop_Cons)
  qed
qed

lemma sentence_loop_fillers:
  "\<forall>t \<in> set mid. t \<notin> negation_words lx \<and> word_score lx t = None \<Longrightarrow>
   sentence_loop lx mid st = st"
proof (induction mid)
  case Nil
  then show ?case by (simp add: sentence_loop_Nil)
next
  case (Cons t mid)
  obtain s n where st: "st = (s, n)" by (cases st)
  from Cons show ?case by (simp add: sentence_loop_Cons st)
qed

lemma sgn_clamp: "sgn (max (- 1) (min 1 (q::real))) = sgn q"
proof -
  consider "q < 0" | "q = 0" | "0 < q" by linarith
  then show ?thesis
  proof cases
    case 1
    then have "max (- 1) (min 1 q) < 0" by (simp add: min_def max_def)
    with 1 show ?thesis by simp
  next
    case 2
    then show ?thesis by simp
  next
    case 3
    then have "0 < max (- 1) (min 1 q)" by (simp add: min_def max_def)
    with 3 show ?thesis by simp
  qed
qed

lemma sgn_normalize_score:
  "ws \<noteq> [] \<Longrightarrow> sgn (normalize_score ws s) = sgn s"
proof -
  assume "ws \<noteq> []"
  then have n: "0 < real (length ws)" by simp
  then have "sgn (s / real (length ws)) = sgn s"
    by (simp add: sgn_divide)
  with \<open>ws \<noteq> []\<close> show ?thesis
    by (simp add: normalize_score_def sgn_clamp)
qed

text \<open>
  C2, as stated, fails. With the dictionaries of the repository, in the token sequence
  (negation word, a word of no dictionary, positive word) the positive word stands two
  positions after the marker and is still negated: the sum is -1 and the score -1/3,
  where the same sequence without the marker gives the sum 1 and the score 1/2.
\<close>

theorem negation_two_positions_later_counterexample:
  "sentence_loop default_lexicon [tok_bu, tok_tai, tok_hao] (0, False) = (- 1, False)
   \<and> sentence_loop default_lexicon [tok_tai, tok_hao] (0, False) = (1, False)
   \<and> analyze_words default_lexicon [tok_bu, tok_tai, tok_hao] = - 1 / 3
   \<and> analyze_words default_lexicon [tok_tai, tok_hao] = 1 / 2"
  by (simp add: lexicon_simps token_simps sentence_loop_def analyze_words_def
      normalize_score_def)

text \<open>
  C2, amended. A negation marker stays pending until the next word of the positive or
  negative dictionary, however many words of no dictionary stand in between: that word
  is added with its sign flipped and the pending negation is cleared there, so that the
  words after it are scored as without a marker. Without the marker the same word is
  added with its own sign.
\<close>

theorem negation_reaches_next_sentiment_word:
  assumes "m \<in> negation_words lx"
    and "\<forall>t \<in> set mid. t \<notin> negation_words lx \<and> word_score lx t = None"
    and "w \<notin> negation_words lx" and "word_score lx w = Some p"
  shows "sentence_loop lx (m # mid @ w # rest) (s, n)
           = sentence_loop lx rest (s - p * get_intensity lx w, False)
         \<and> sentence_loop lx (mid @ w # rest) (s, False)
           = sentence_loop lx rest (s + p * get_intensity lx w, False)"
  using assms sentence_loop_fillers [OF assms(2)]
  by (simp add: sentence_loop_Cons sentence_loop_append)

theorem negation_reaches_next_sentiment_word_witness:
  "sentence_loop default_lexicon [tok_mei, tok_shipin, tok_cha, tok_hao] (0, False)
     = sentence_loop default_lexicon [tok_hao] (1, False)
   \<and> sentence_loop default_lexicon [tok_shipin, tok_cha, tok_hao] (0, False)
     = sentence_loop default_lexicon [tok_hao] (- 1, False)"
proof -
  have h1: "tok_mei \<in> negation_words default_lexicon"
    by (simp add: lexicon_simps token_simps)
  have h2: "\<forall>t \<in> set [tok_shipin].
      t \<notin> negation_words default_lexicon \<and> word_score default_lexicon t = None"
    by (simp add: lexicon_simps token_simps)
  have h3: "tok_cha \<notin> negation_words default_lexicon"
    by (simp add: lexicon_simps token_simps)
  have h4: "word_score default_lexicon tok_cha = Some (- 1)"
    by (simp add: lexicon_simps token_simps)
  have h5: "get_intensity default_lexicon tok_cha = 1"
    by (simp add: lexicon_simps token_simps)
  from negation_reaches_next_sentiment_word [OF h1 h2 h3 h4, of "[tok_hao]" 0 False]
  show ?thesis by (simp add: h5)
qed

text \<open>
  C10, as stated, fails for the returned score: two markers before a positive word
  give -1/3, one marker gives -1/2, because the score is divided by the number of
  tokens and the second marker is a token.
\<close>

theorem repeated_negation_score_counterexample:
  "analyze_words default_lexicon [tok_bu, tok_bu, tok_hao] = - 1 / 3
   \<and> analyze_words default_lexicon [tok_bu, tok_hao] = - 1 / 2"
  by (simp add: lexicon_simps token_simps sentence_loop_def analyze_words_def
      normalize_score_def)

text \<open>
  C10, amended. A run of one or more negation markers leaves the loop in the same state
  (the same accumulated sum, negation pending) as a single marker in that position, so
  the sum over the whole token sequence is the same and the returned scores have the
  same sign: markers set the pending negation and never toggle it. The returned score
  itself is that sum divided by the respective number of tokens.
\<close>

theorem repeated_negation_same_sum:
  assumes "ms \<noteq> []" and "set ms \<subseteq> negation_words lx" and "m \<in> negation_words lx"
  shows "sentence_loop lx (pre @ ms @ rest) st = sentence_loop lx (pre @ m # rest) st
         \<and> sgn (analyze_words lx (pre @ ms @ rest)) = sgn (analyze_words lx (pre @ m # rest))"
proof -
  have eq: "sentence_loop lx (pre @ ms @ rest) st' = sentence_loop lx (pre @ m # rest) st'" for st'
  proof -
    obtain s n where "sentence_loop lx pre st' = (s, n)" by (cases "sentence_loop lx pre st'")
    then show ?thesis
      using assms sentence_loop_markers [OF assms(1,2)]
      by (simp add: sentence_loop_append sentence_loop_Cons)
  qed
  have "pre @ ms @ rest \<noteq> []" "pre @ m # rest \<noteq> []" using assms(1) by simp_all
  then show ?thesis using eq
    by (simp add: analyze_words_def sgn_normalize_score)
qed

theorem repeated_negation_same_sum_witness:
  "sentence_loop default_lexicon ([tok_hao] @ [tok_bu, tok_mei, tok_bu] @ [tok_cha]) (0, False)
     = sentence_loop default_lexicon ([tok_hao] @ tok_mei # [tok_cha]) (0, False)
   \<and> sgn (analyze_words default_lexicon ([tok_hao] @ [tok_bu, tok_mei, tok_bu] @ [tok_cha]))
     = sgn (analyze_words default_lexicon ([tok_hao] @ tok_mei # [tok_cha]))"
proof -
  have h1: "[tok_bu, tok_mei, tok_bu] \<noteq> []" by simp
  have h2: "set [tok_bu, tok_mei, tok_bu] \<subseteq> negation_words default_lexicon"
    by (simp add: lexicon_simps token_simps)
  have h3: "tok_mei \<in> negation_words default_lexicon"
    by (simp add: lexicon_simps token_simps)
  from repeated_negation_same_sum [OF h1 h2 h3, of "[tok_hao]" "[tok_cha]" "(0, False)"]
  show ?thesis .
qed

subsection \<open>Intensity weights\<close>

lemma word_score_intensity_update:
  "word_score (lx\<lparr>intensity_words := f\<rparr>) w = word_score lx w"
  by (simp add: word_score_def)

lemma sentence_step_intensity_irrelevant:
  assumes "\<And>w p. word_score lx w = Some p \<Longrightarrow> intensity_words lx w = None \<and> f w = None"
  shows "sentence_step (lx\<lparr>intensity_words := f\<rparr>) st w = sentence_step lx st w"
proof (cases st)
  case (Pair s n)
  show ?thesis
  proof (cases "word_score lx w")
    case None
    with Pair show ?thesis by (simp add: word_score_intensity_update)
  next
    case (Some p)
    from assms [OF Some] Some Pair show ?thesis
      by (simp add: get_intensity_def word_score_intensity_update)
  qed
qed

lemma sentence_loop_intensity_irrelevant:
  assumes "\<And>w p. word_score lx w = Some p \<Longrightarrow> intensity_words lx w = None \<and> f w = None"
  shows "sentence_loop (lx\<lparr>intensity_words := f\<rparr>) ws st = sentence_loop lx ws st"
  unfolding sentence_loop_def
  by (induction ws arbitrary: st) (simp_all add: sentence_step_intensity_irrelevant [OF assms])

lemma default_intensity_keys_disjoint_sets:
  "fst ` set default_intensity_table \<inter> (default_positive_words \<union> default_negative_words) = {}"
  by (simp add: default_positive_words_def default_negative_words_def
      default_intensity_table_def)

lemma default_intensity_keys_disjoint:
  assumes "w \<in> default_positive_words \<union> default_negative_words"
  shows "map_of default_intensity_table w = None"
proof -
  from assms default_intensity_keys_disjoint_sets
  have "w \<notin> fst ` set default_intensity_table" by blast
  then show ?thesis by (simp add: map_of_eq_None_iff)
qed

lemma default_word_score_no_intensity:
  "word_score default_lexicon w = Some p \<Longrightarrow> intensity_words default_lexicon w = None"
  using default_intensity_keys_disjoint [of w]
  by (simp add: word_score_def default_lexicon_def split: if_splits)

text \<open>
  C3. With the dictionaries of the repository the intensity weights never reach the
  score: for every tokenizer and every argument, \<open>analyze_sentence\<close> returns the same
  score when every weight of the intensity table is replaced by 1.0. The keys of the
  table are disjoint from the positive and the negative words, and the weight is looked
  up for the sentiment word itself.
\<close>

theorem intensity_is_noop_default:
  "analyze_sentence rt (default_lexicon\<lparr>intensity_words := unit_weights (intensity_words default_lexicon)\<rparr>) x
     = analyze_sentence rt default_lexicon x"
proof -
  have "sentence_loop (default_lexicon\<lparr>intensity_words := unit_weights (intensity_words default_lexicon)\<rparr>) ws st
        = sentence_loop default_lexicon ws st" for ws st
    by (rule sentence_loop_intensity_irrelevant)
      (simp add: default_word_score_no_intensity unit_weights_def)
  then show ?thesis
    by (simp add: analyze_sentence_def analyze_words_def split: pyval.splits)
qed

subsection \<open>Scoring a table\<close>

lemma map_of_set_column: "map_of (set_column df name vals) = (map_of df)(name \<mapsto> vals)"
  by (induction df name vals rule: set_column.induct) auto

lemma analyze_hao: "analyze_sentence sample_runtime default_lexicon (PStr tok_hao) = 1"
  by (simp add: analyze_sentence_def analyze_words_def normalize_score_def sentence_loop_def
      sample_runtime_def space_cut_def lexicon_simps token_simps)

lemma analyze_cha: "analyze_sentence sample_runtime default_lexicon (PStr tok_cha) = - 1"
  by (simp add: analyze_sentence_def analyze_words_def normalize_score_def sentence_loop_def
      sample_runtime_def space_cut_def lexicon_simps token_simps)

lemma label_simps:
  "classify_sentiment 1 = label_positive" "classify_sentiment (- 1) = label_negative"
  "classify_sentiment 0 = label_neutral"
  by (simp_all add: classify_sentiment_def)

text \<open>
  C6, as stated, fails. A table with the single comment \<open>tok_hao\<close> stands behind
  reference 0. After the call the caller's own table behind reference 0 has the two new
  columns, and the returned reference is 0: the input collection was changed, and the
  returned collection is the caller's.
\<close>

theorem analyze_comments_mutates_counterexample:
  "one_comment_store 0 = [(content_column, [PStr tok_hao])]
   \<and> caller_table (SentimentAnalyzer_analyze_comments sample_runtime default_lexicon
        one_comment_store 0 content_column) 0
     = Some [(content_column, [PStr tok_hao]), (score_column, [PNum 1]),
             (label_column, [PStr label_positive])]
   \<and> returned_ref (SentimentAnalyzer_analyze_comments sample_runtime default_lexicon
        one_comment_store 0 content_column) = Some 0"
  by (simp add: caller_table_def returned_ref_def SentimentAnalyzer_analyze_comments_def
      one_comment_store_def get_column_def analyze_hao label_simps Let_def
      content_column_def score_column_def label_column_def)

text \<open>
  C6, amended. \<open>analyze_comments\<close> works in place: when it returns, the returned table
  is the caller's table (the same reference), no other table of the store has changed,
  and the caller's table has the columns it had, with the sentiment score column holding
  the score of every row's text and the sentiment label column holding the label of that
  score, row by row; every other column is as it was.
\<close>

theorem analyze_comments_in_place:
  assumes "SentimentAnalyzer_analyze_comments rt lx h df text_column = Inr (h', df', counts)"
  shows "df' = df
    \<and> (\<forall>r. r \<noteq> df \<longrightarrow> h' r = h r)
    \<and> (\<exists>col. get_column (h df) text_column = Inr col
         \<and> map_of (h' df) =
             (map_of (h df))
               (score_column \<mapsto> map (\<lambda>v. PNum (analyze_sentence rt lx v)) col,
                label_column \<mapsto> map (\<lambda>v. PStr (classify_sentiment (analyze_sentence rt lx v))) col))"
  using assms
  by (auto simp add: SentimentAnalyzer_analyze_comments_def Let_def map_of_set_column
      comp_def split: sum.splits)

theorem analyze_comments_in_place_witness:
  "caller_table (SentimentAnalyzer_analyze_comments sample_runtime default_lexicon
        two_comment_store 3 content_column) 5 = Some (two_comment_store 5)
   \<and> map_option map_of (caller_table (SentimentAnalyzer_analyze_comments sample_runtime default_lexicon
        two_comment_store 3 content_column) 3)
     = Some ((map_of (two_comment_store 3))
               (score_column \<mapsto> [PNum (- 1), PNum 0],
                label_column \<mapsto> [PStr label_negative, PStr label_neutral]))"
proof -
  obtain h' df' counts where
    r: "SentimentAnalyzer_analyze_comments sample_runtime default_lexicon
          two_comment_store 3 content_column = Inr (h', df', counts)"
    by (simp add: SentimentAnalyzer_analyze_comments_def two_comment_store_def get_column_def
        content_column_def ascii_def Let_def)
  have col: "get_column (two_comment_store 3) content_column = Inr [PStr tok_cha, PNone]"
    by (simp add: two_comment_store_def get_column_def content_column_def ascii_def)
  have none: "analyze_sentence sample_runtime default_lexicon PNone = 0"
    by (simp add: analyze_sentence_def)
  from analyze_comments_in_place [OF r] col
  show ?thesis
    by (simp add: r caller_table_def analyze_cha none label_simps)
qed

section \<open>Properties of the text miner\<close>

subsection \<open>Construction\<close>

text \<open>
  C5. The claim holds of the intent of \<open>load_stopwords\<close> (a \<open>try\<close> with a warning in its
  \<open>except\<close> branch), not of the code: text_mining.py never imports \<open>os\<close>, so the test
  \<open>os.path.exists(filepath)\<close> raises \<open>NameError\<close> before the \<open>try\<close> is entered, whatever
  the file system holds. Construction with the stopword file "stopwords.txt" raises.
\<close>

theorem TextMiner_init_with_stopwords_file_raises:
  "TextMiner_init fs (Some (ascii ''stopwords.txt'')) = Inl (NameError ''os'')"
  by (simp add: TextMiner_init_def load_stopwords_def text_mining_globals_def ascii_def)

lemma TextMiner_init_without_file:
  "TextMiner_init fs None = Inr (\<lparr>stopwords = base_stopwords\<rparr>, False)"
  by (simp add: TextMiner_init_def load_stopwords_def)

subsection \<open>Counting\<close>

lemma counter_add_sum: "sum_list (map snd (counter_add kcs w)) = Suc (sum_list (map snd kcs))"
  by (induction kcs w rule: counter_add.induct) auto

lemma counter_add_keys: "fst ` set (counter_add kcs w) = insert w (fst ` set kcs)"
  by (induction kcs w rule: counter_add.induct) auto

lemma counter_add_distinct: "distinct (map fst kcs) \<Longrightarrow> distinct (map fst (counter_add kcs w))"
proof (induction kcs w rule: counter_add.induct)
  case (1 w)
  then show ?case by simp
next
  case (2 k c kcs w)
  then show ?case using counter_add_keys [of kcs w] by (auto simp add: image_iff)
qed

lemma counter_add_positive:
  "\<forall>kc \<in> set kcs. 0 < snd kc \<Longrightarrow> \<forall>kc \<in> set (counter_add kcs w). 0 < snd kc"
  by (induction kcs w rule: counter_add.induct) auto

lemma foldl_counter_add_sum:
  "sum_list (map snd (foldl counter_add acc ws)) = sum_list (map snd acc) + length ws"
  by (induction ws arbitrary: acc) (simp_all add: counter_add_sum)

lemma foldl_counter_add_keys:
  "fst ` set (foldl counter_add acc ws) = fst ` set acc \<union> set ws"
  by (induction ws arbitrary: acc) (auto simp add: counter_add_keys)

lemma foldl_counter_add_distinct:
  "distinct (map fst acc) \<Longrightarrow> distinct (map fst (foldl counter_add acc ws))"
  by (induction ws arbitrary: acc) (simp_all add: counter_add_distinct)

lemma foldl_counter_add_positive:
  "\<forall>kc \<in> set acc. 0 < snd kc \<Longrightarrow> \<forall>kc \<in> set (foldl counter_add acc ws). 0 < snd kc"
proof (induction ws arbitrary: acc)
  case Nil
  then show ?case by simp
next
  case (Cons w ws)
  from Cons.IH [OF counter_add_positive [OF Cons.prems, of w]] show ?case by simp
qed

lemma Counter_sum: "sum_list (map snd (Counter ws)) = length ws"
  by (simp add: Counter_def foldl_counter_add_sum)

lemma Counter_keys: "fst ` set (Counter ws) = set ws"
  by (simp add: Counter_def foldl_counter_add_keys)

lemma Counter_distinct: "distinct (map fst (Counter ws))"
  by (simp add: Counter_def foldl_counter_add_distinct)

lemma Counter_positive: "(k, c) \<in> set (Counter ws) \<Longrightarrow> 0 < c"
  using foldl_counter_add_positive [of "[]" ws] by (auto simp add: Counter_def)

lemma length_most_common: "length (most_common wc n) \<le> nat n"
  by (simp add: most_common_def)

lemma kept_words_retained:
  "w \<in> set (kept_words rt tm text) \<Longrightarrow> 2 \<le> length w \<and> w \<notin> stopwords tm \<and> \<not> isdigit rt w"
  by (auto simp add: kept_words_def)

subsection \<open>The three example comments\<close>

lemmas miner_eval = kept_words_def sample_runtime_def default_miner_def base_stopwords_def
  isdigit_def strip_def py_isspace_def space_cut_def ascii_def

lemma kept_words_pi_1:
  "kept_words sample_runtime default_miner (ascii ''pi 3.14'') = [ascii ''pi'', ascii ''3.14'']"
  by (simp add: miner_eval)

lemma kept_words_pi_2:
  "kept_words sample_runtime default_miner (ascii ''3.14 ok'') = [ascii ''3.14'', ascii ''ok'']"
  by (simp add: miner_eval)

lemma kept_words_pi_3:
  "kept_words sample_runtime default_miner (ascii ''id 3514'') = [ascii ''id'']"
  by (simp add: miner_eval)

lemma Counter_pi:
  "Counter [ascii ''pi'', ascii ''3.14'', ascii ''3.14'', ascii ''ok'', ascii ''id'']
   = [(ascii ''pi'', Suc 0), (ascii ''3.14'', 2), (ascii ''ok'', Suc 0), (ascii ''id'', Suc 0)]"
  by (simp add: Counter_def ascii_def)

lemma most_common_pi_50:
  "most_common [(ascii ''pi'', Suc 0), (ascii ''3.14'', 2), (ascii ''ok'', Suc 0), (ascii ''id'', Suc 0)] 50
   = [(ascii ''3.14'', 2), (ascii ''pi'', Suc 0), (ascii ''ok'', Suc 0), (ascii ''id'', Suc 0)]"
  by (simp add: most_common_def ascii_def)

lemma most_common_pi_2:
  "most_common [(ascii ''pi'', Suc 0), (ascii ''3.14'', 2), (ascii ''ok'', Suc 0), (ascii ''id'', Suc 0)] 2
   = [(ascii ''3.14'', 2), (ascii ''pi'', Suc 0)]"
  by (simp add: most_common_def ascii_def)

lemma clean_text_pi:
  "clean_text sample_runtime (PStr (join_space (dropna
      [Some (ascii ''pi 3.14''), Some (ascii ''3.14 ok''), Some (ascii ''id 3514'')])))
   = ascii ''pi 314 314 ok id 3514''"
  by (simp add: clean_text_def dropna_def sample_runtime_def py_isspace_def strip_def ascii_def)

lemma pi_column:
  "get_column pi_comments content_column
     = Inr [Some (ascii ''pi 3.14''), Some (ascii ''3.14 ok''), Some (ascii ''id 3514'')]"
  by (simp add: get_column_def pi_comments_def)

lemma pi_words:
  "concat (map (kept_words sample_runtime default_miner)
      (dropna [Some (ascii ''pi 3.14''), Some (ascii ''3.14 ok''), Some (ascii ''id 3514'')]))
   = [ascii ''pi'', ascii ''3.14'', ascii ''3.14'', ascii ''ok'', ascii ''id'']"
  by (simp add: dropna_def kept_words_pi_1 kept_words_pi_2 kept_words_pi_3)

lemma cleaned_pi_nonempty: "ascii ''pi 314 314 ok id 3514'' \<noteq> []"
  by (simp add: ascii_def)

lemma mine_pi_50:
  "TextMiner_analyze_comments sample_runtime default_miner pi_comments content_column 50
   = Inr (Some \<lparr>top_words = [(ascii ''3.14'', 2), (ascii ''pi'', 1), (ascii ''ok'', 1), (ascii ''id'', 1)],
                total_words = 5, unique_words = 4,
                all_word_counts = [(ascii ''pi'', 1), (ascii ''3.14'', 2), (ascii ''ok'', 1), (ascii ''id'', 1)]\<rparr>)"
  using cleaned_pi_nonempty
  by (simp add: TextMiner_analyze_comments_def pi_column clean_text_pi pi_words Counter_pi
      most_common_pi_50 Let_def)

lemma mine_pi_2:
  "TextMiner_analyze_comments sample_runtime default_miner pi_comments content_column 2
   = Inr (Some \<lparr>top_words = [(ascii ''3.14'', 2), (ascii ''pi'', 1)],
                total_words = 5, unique_words = 4,
                all_word_counts = [(ascii ''pi'', 1), (ascii ''3.14'', 2), (ascii ''ok'', 1), (ascii ''id'', 1)]\<rparr>)"
  using cleaned_pi_nonempty
  by (simp add: TextMiner_analyze_comments_def pi_column clean_text_pi pi_words Counter_pi
      most_common_pi_2 Let_def)

subsection \<open>The mining result\<close>

text \<open>
  C8. Whenever \<open>analyze_comments\<close> of the miner returns a result with fields (the
  cleaned corpus text is not empty), the list \<open>top_words\<close> has at most \<open>top_n\<close> entries
  (none for a \<open>top_n\<close> that is zero or negative), and the counts of \<open>all_word_counts\<close>,
  a dictionary with distinct keys, add up to \<open>total_words\<close>.
\<close>

theorem mining_result_counts:
  assumes "TextMiner_analyze_comments rt tm df text_column N = Inr (Some r)"
  shows "length (top_words r) \<le> nat N
       \<and> distinct (map fst (all_word_counts r))
       \<and> sum_list (map snd (all_word_counts r)) = total_words r"
  using assms
  by (auto simp add: TextMiner_analyze_comments_def Let_def length_most_common Counter_sum
      Counter_distinct split: sum.splits if_splits)

theorem mining_result_counts_witness:
  "TextMiner_analyze_comments sample_runtime default_miner pi_comments content_column 2
     = Inr (Some \<lparr>top_words = [(ascii ''3.14'', 2), (ascii ''pi'', 1)],
                  total_words = 5, unique_words = 4,
                  all_word_counts = [(ascii ''pi'', 1), (ascii ''3.14'', 2), (ascii ''ok'', 1), (ascii ''id'', 1)]\<rparr>)
   \<and> length [(ascii ''3.14'', 2::nat), (ascii ''pi'', 1)] \<le> nat 2
   \<and> sum_list (map snd [(ascii ''pi'', 1::nat), (ascii ''3.14'', 2), (ascii ''ok'', 1), (ascii ''id'', 1)]) = 5"
  using mining_result_counts [OF mine_pi_2] mine_pi_2 by simp

text \<open>
  C9. Every key of \<open>all_word_counts\<close> is a word the filter kept: at least two characters
  long, not a stopword and not made of digits only; and its count is positive.
\<close>

theorem all_word_counts_keys_retained:
  assumes "TextMiner_analyze_comments rt tm df text_column N = Inr (Some r)"
    and "(k, c) \<in> set (all_word_counts r)"
  shows "2 \<le> length k \<and> k \<notin> stopwords tm \<and> \<not> isdigit rt k \<and> 0 < c"
proof -
  from assms(1) obtain col where
    r: "all_word_counts r = Counter (concat (map (kept_words rt tm) (dropna col)))"
    by (auto simp add: TextMiner_analyze_comments_def Let_def split: sum.splits if_splits)
  from assms(2) r have "k \<in> fst ` set (Counter (concat (map (kept_words rt tm) (dropna col))))"
    by (metis fst_conv image_eqI)
  then have "k \<in> set (concat (map (kept_words rt tm) (dropna col)))"
    by (simp add: Counter_keys)
  then obtain cmt where "k \<in> set (kept_words rt tm cmt)" by auto
  from kept_words_retained [OF this] Counter_positive assms(2) r show ?thesis by simp
qed

theorem all_word_counts_keys_retained_witness:
  "2 \<le> length (ascii ''3.14'') \<and> ascii ''3.14'' \<notin> stopwords default_miner
   \<and> \<not> isdigit sample_runtime (ascii ''3.14'') \<and> (0::nat) < 2"
proof -
  have "(ascii ''3.14'', 2)
      \<in> set (all_word_counts \<lparr>top_words = [(ascii ''3.14'', 2), (ascii ''pi'', 1), (ascii ''ok'', 1), (ascii ''id'', 1)],
                total_words = 5, unique_words = 4,
                all_word_counts = [(ascii ''pi'', 1), (ascii ''3.14'', 2), (ascii ''ok'', 1), (ascii ''id'', 1)]\<rparr>)"
    by simp
  from all_word_counts_keys_retained [OF mine_pi_50 this] show ?thesis .
qed

subsection \<open>Hot topics\<close>

lemma select_rows_map: "select_rows col (map f col) = filter f col"
  by (induction col) (simp_all add: select_rows_def)

text \<open>
  What the loop of \<open>find_hot_topics\<close> does for every topic it returns: the word comes
  from the list of frequent words with a count of at least \<open>min_count\<close>, the related
  comments are the string cells in which the regular expression compiled from the word
  matches somewhere, and the samples are the first three of them in table order.
\<close>

lemma hot_topics_loop_topics:
  assumes "hot_topics_loop rt col k tw = Inr topics" and "t \<in> set topics"
  shows "k \<le> int (occurrence_count t) \<and> (keyword t, occurrence_count t) \<in> set tw
       \<and> length (sample_comments t) \<le> 3
       \<and> (\<exists>search. re_compile rt (keyword t) = Some search
            \<and> related_comment_count t
                = length (filter (\<lambda>cell. case cell of None \<Rightarrow> False | Some s \<Rightarrow> search s) col)
            \<and> sample_comments t
                = take 3 (filter (\<lambda>cell. case cell of None \<Rightarrow> False | Some s \<Rightarrow> search s) col))"
  using assms
proof (induction rt col k tw arbitrary: topics rule: hot_topics_loop.induct)
  case (1 rt col min_count)
  then show ?case by simp
next
  case (2 rt col min_count word count rest)
  show ?case
  proof (cases "min_count \<le> int count")
    case False
    with 2 show ?thesis by auto
  next
    case True
    from True "2.prems"(1) obtain search topics' where
      c: "re_compile rt word = Some search"
      and rest: "hot_topics_loop rt col min_count rest = Inr topics'"
      and topics: "topics =
        \<lparr>keyword = word, occurrence_count = count,
         related_comment_count =
           length (filter (\<lambda>cell. case cell of None \<Rightarrow> False | Some s \<Rightarrow> search s) col),
         sample_comments =
           take 3 (filter (\<lambda>cell. case cell of None \<Rightarrow> False | Some s \<Rightarrow> search s) col)\<rparr>
        # topics'"
      by (auto simp add: str_contains_def select_rows_map Let_def
          split: option.splits sum.splits)
    from "2.prems"(2) topics consider
      "t = \<lparr>keyword = word, occurrence_count = count,
         related_comment_count =
           length (filter (\<lambda>cell. case cell of None \<Rightarrow> False | Some s \<Rightarrow> search s) col),
         sample_comments =
           take 3 (filter (\<lambda>cell. case cell of None \<Rightarrow> False | Some s \<Rightarrow> search s) col)\<rparr>"
      | "t \<in> set topics'" by auto
    then show ?thesis
    proof cases
      case 1
      with True c show ?thesis by simp
    next
      case 2
      have "min_count \<le> int (occurrence_count t) \<and> (keyword t, occurrence_count t) \<in> set rest
         \<and> length (sample_comments t) \<le> 3
         \<and> (\<exists>search. re_compile rt (keyword t) = Some search
            \<and> related_comment_count t
                = length (filter (\<lambda>cell. case cell of None \<Rightarrow> False | Some s \<Rightarrow> search s) col)
            \<and> sample_comments t
                = take 3 (filter (\<lambda>cell. case cell of None \<Rightarrow> False | Some s \<Rightarrow> search s) col))"
      proof (cases "str_contains rt col word")
        case (Inl e)
        with c show ?thesis by (simp add: str_contains_def)
      next
        case (Inr sel)
        from "2.IH"(1) [OF True Inr refl refl rest 2] show ?thesis .
      qed
      then show ?thesis by auto
    qed
  qed
qed

lemma str_contains_pi:
  "str_contains sample_runtime
      [Some (ascii ''pi 3.14''), Some (ascii ''3.14 ok''), Some (ascii ''id 3514'')] (ascii ''3.14'')
   = Inr [True, True, True]"
  by (simp add: str_contains_def sample_runtime_def ascii_def)

lemma substring_count_pi:
  "length (filter (\<lambda>cell. case cell of None \<Rightarrow> False | Some s \<Rightarrow> is_substring (ascii ''3.14'') s)
     [Some (ascii ''pi 3.14''), Some (ascii ''3.14 ok''), Some (ascii ''id 3514'')]) = 2"
  by (simp add: ascii_def)

text \<open>
  C7. The counts and the samples are as the claim says up to the test itself: the code
  does not test for a substring. \<open>str.contains\<close> reads the keyword as a regular
  expression. In the three example comments the word "3.14" occurs twice and is a
  substring of two comments, yet \<open>find_hot_topics\<close> with \<open>min_count = 2\<close> reports three
  related comments and samples "id 3514", where the dot matches the 5.
\<close>

theorem hot_topics_regex_not_substring:
  "find_hot_topics sample_runtime default_miner pi_comments content_column 2
     = Inr [\<lparr>keyword = ascii ''3.14'', occurrence_count = 2, related_comment_count = 3,
             sample_comments = [Some (ascii ''pi 3.14''), Some (ascii ''3.14 ok''), Some (ascii ''id 3514'')]\<rparr>]
   \<and> length (filter (\<lambda>cell. case cell of None \<Rightarrow> False | Some s \<Rightarrow> is_substring (ascii ''3.14'') s)
        [Some (ascii ''pi 3.14''), Some (ascii ''3.14 ok''), Some (ascii ''id 3514'')]) = 2"
proof -
  have "find_hot_topics sample_runtime default_miner pi_comments content_column 2
     = Inr [\<lparr>keyword = ascii ''3.14'', occurrence_count = 2, related_comment_count = 3,
             sample_comments = [Some (ascii ''pi 3.14''), Some (ascii ''3.14 ok''), Some (ascii ''id 3514'')]\<rparr>]"
    by (simp add: find_hot_topics_def mine_pi_50 pi_column str_contains_pi select_rows_def Let_def)
  with substring_count_pi show ?thesis by simp
qed

end
